theory Spec2Isabelle
  imports Main
begin

section \<open>The runs-list filter bar (runs_list/filters.tsx)\<close>

subsection \<open>Data\<close>

text \<open>
  \<open>PlaybookRunStatus\<close> (src/types/playbook_run, not among the sources): the two members
  the filter bar refers to.
\<close>

datatype PlaybookRunStatus = InProgress | Finished

text \<open>
  \<open>FetchPlaybookRunsParams\<close>: the query-parameter bag. Its declaration is not among the
  sources; the record lists the fields the filter bar reads or writes. An optional field
  (\<open>f?: T\<close>) is an \<open>option\<close>, \<open>None\<close> standing for \<open>undefined\<close>. Every other field of the
  bag (page size, sort order, ...) lives in the record's extension part \<open>more\<close>, so the
  functions below are defined for any such bag.
\<close>

record FetchPlaybookRunsParams =
  page :: int
  team_id :: "string option"
  statuses :: "PlaybookRunStatus list option"
  owner_user_id :: "string option"
  participant_or_follower_id :: "string option"
  search_term :: "string option"
  playbook_id :: "string option"

text \<open>\<open>UserProfile\<close>: only its \<open>id\<close> field is used (\<open>user?.id\<close>); named \<open>profile_id\<close> here.\<close>

record UserProfile =
  profile_id :: string

text \<open>
  The state the component works on: the fetch parameters (owned by the parent and
  reached through \<open>setFetchParams\<close>) and the three \<open>useState\<close> toggles.
\<close>

record 'a FiltersState =
  fetchParams :: "'a FetchPlaybookRunsParams_scheme"
  profileSelectorToggle :: bool
  teamSelectorToggle :: bool
  playbookSelectorToggle :: bool

text \<open>The optional props \<open>fixedTeam?\<close>, \<open>fixedPlaybook?\<close>, \<open>fixedFinished?\<close>.\<close>

record FiltersProps =
  fixedTeam :: "bool option"
  fixedPlaybook :: "bool option"
  fixedFinished :: "bool option"

subsection \<open>JavaScript truthiness of the values involved\<close>

text \<open>An optional boolean is truthy only when it is \<open>true\<close>; \<open>undefined\<close> is falsy.\<close>

definition truthy :: "bool option \<Rightarrow> bool" where
  "truthy b = (b = Some True)"

text \<open>\<open>Boolean(s)\<close> for an optional string: \<open>undefined\<close> and the empty string are falsy.\<close>

definition Boolean_str :: "string option \<Rightarrow> bool" where
  "Boolean_str s = (case s of None \<Rightarrow> False | Some v \<Rightarrow> v \<noteq> [])"

subsection \<open>State setters\<close>

text \<open>
  \<open>setFetchParams(f)\<close> with an updater function: React applies \<open>f\<close> to the current value
  and stores the result.
\<close>

definition setFetchParams ::
  "('a FetchPlaybookRunsParams_scheme \<Rightarrow> 'a FetchPlaybookRunsParams_scheme) \<Rightarrow>
   'a FiltersState \<Rightarrow> 'a FiltersState" where
  "setFetchParams f st = st\<lparr>fetchParams := f (fetchParams st)\<rparr>"

definition setProfileSelectorToggle :: "bool \<Rightarrow> 'a FiltersState \<Rightarrow> 'a FiltersState" where
  "setProfileSelectorToggle b st = st\<lparr>profileSelectorToggle := b\<rparr>"

definition setTeamSelectorToggle :: "bool \<Rightarrow> 'a FiltersState \<Rightarrow> 'a FiltersState" where
  "setTeamSelectorToggle b st = st\<lparr>teamSelectorToggle := b\<rparr>"

definition setPlaybookSelectorToggle :: "bool \<Rightarrow> 'a FiltersState \<Rightarrow> 'a FiltersState" where
  "setPlaybookSelectorToggle b st = st\<lparr>playbookSelectorToggle := b\<rparr>"

subsection \<open>The filter setters (lines 84 to 119)\<close>

text \<open>Each is \<open>{...oldParams, field: value, page: 0}\<close> handed to \<open>setFetchParams\<close>.\<close>

definition setMyRunsOnly :: "bool option \<Rightarrow> 'a FiltersState \<Rightarrow> 'a FiltersState" where
  "setMyRunsOnly checked =
     setFetchParams (\<lambda>oldParams.
       oldParams\<lparr>participant_or_follower_id := Some (if truthy checked then ''me'' else ''''),
                 page := 0\<rparr>)"

text \<open>\<open>setOwnerId(userType?, user?)\<close> stores \<open>user?.id\<close>: undefined when there is no user.\<close>

definition setOwnerId ::
  "string option \<Rightarrow> UserProfile option \<Rightarrow> 'a FiltersState \<Rightarrow> 'a FiltersState" where
  "setOwnerId userType user =
     setFetchParams (\<lambda>oldParams.
       oldParams\<lparr>owner_user_id := (case user of None \<Rightarrow> None | Some u \<Rightarrow> Some (profile_id u)),
                 page := 0\<rparr>)"

definition setTeamId :: "string option \<Rightarrow> 'a FiltersState \<Rightarrow> 'a FiltersState" where
  "setTeamId teamId =
     setFetchParams (\<lambda>oldParams. oldParams\<lparr>team_id := teamId, page := 0\<rparr>)"

definition setPlaybookId :: "string option \<Rightarrow> 'a FiltersState \<Rightarrow> 'a FiltersState" where
  "setPlaybookId playbookId =
     setFetchParams (\<lambda>oldParams. oldParams\<lparr>playbook_id := playbookId, page := 0\<rparr>)"

definition setFinishedRuns :: "bool option \<Rightarrow> 'a FiltersState \<Rightarrow> 'a FiltersState" where
  "setFinishedRuns checked =
     (let sts = (if truthy checked then [InProgress, Finished] else [InProgress])
      in setFetchParams (\<lambda>oldParams. oldParams\<lparr>statuses := Some sts, page := 0\<rparr>))"

definition setSearchTerm :: "string \<Rightarrow> 'a FiltersState \<Rightarrow> 'a FiltersState" where
  "setSearchTerm term =
     setFetchParams (\<lambda>oldParams. oldParams\<lparr>search_term := Some term, page := 0\<rparr>)"

subsection \<open>The reset controls (lines 121 to 134)\<close>

text \<open>
  Each calls its setter with no argument, then stores the negation of the toggle value
  the handler was rendered with.
\<close>

definition resetOwner :: "'a FiltersState \<Rightarrow> 'a FiltersState" where
  "resetOwner st =
     setProfileSelectorToggle (\<not> profileSelectorToggle st) (setOwnerId None None st)"

definition resetTeam :: "'a FiltersState \<Rightarrow> 'a FiltersState" where
  "resetTeam st = setTeamSelectorToggle (\<not> teamSelectorToggle st) (setTeamId None st)"

definition resetPlaybook :: "'a FiltersState \<Rightarrow> 'a FiltersState" where
  "resetPlaybook st =
     setPlaybookSelectorToggle (\<not> playbookSelectorToggle st) (setPlaybookId None st)"

subsection \<open>What the component renders (lines 149 to 222)\<close>

text \<open>
  The props handed to a \<open>CheckboxInput\<close>: \<open>disabled\<close> is optional (the filter bar never
  passes it). Texts go through the translation function and are left out.
\<close>

record CheckboxInputProps =
  testId :: string
  checked :: bool
  disabled :: "bool option"

text \<open>The props of a selector that depend on the state.\<close>

record SelectorProps =
  selectorTestId :: string
  selectedId :: "string option"
  showCustomReset :: bool
  controlledOpenToggle :: bool

record FiltersView =
  searchDefault :: "string option"
  myRunsOnlyBox :: CheckboxInputProps
  finishedRunsBox :: "CheckboxInputProps option"
  ownerFilter :: SelectorProps
  playbookFilter :: "SelectorProps option"
  teamFilter :: "SelectorProps option"

text \<open>\<open>(fetchParams.statuses?.length ?? 0) > 1\<close>\<close>

definition includeFinished :: "'a FetchPlaybookRunsParams_scheme \<Rightarrow> bool" where
  "includeFinished p = ((case statuses p of None \<Rightarrow> 0 | Some xs \<Rightarrow> length xs) > 1)"

text \<open>\<open>const myRunsOnly = fetchParams.participant_or_follower_id === 'me'\<close>\<close>

definition myRunsOnly :: "'a FetchPlaybookRunsParams_scheme \<Rightarrow> bool" where
  "myRunsOnly p = (participant_or_follower_id p = Some ''me'')"

text \<open>\<open>teams\<close> is the list \<open>useSelector(getMyTeams)\<close> gives; only its length matters.\<close>

definition Filters :: "FiltersProps \<Rightarrow> 't list \<Rightarrow> 'a FiltersState \<Rightarrow> FiltersView" where
  "Filters props teams st =
     (let p = fetchParams st in
      \<lparr>searchDefault = search_term p,
       myRunsOnlyBox = \<lparr>testId = ''my-runs-only'', checked = myRunsOnly p, disabled = None\<rparr>,
       finishedRunsBox =
         (if \<not> truthy (fixedFinished props)
          then Some \<lparr>testId = ''finished-runs'', checked = includeFinished p, disabled = None\<rparr>
          else None),
       ownerFilter =
         \<lparr>selectorTestId = ''owner-filter'', selectedId = owner_user_id p,
          showCustomReset = Boolean_str (owner_user_id p),
          controlledOpenToggle = profileSelectorToggle st\<rparr>,
       playbookFilter =
         (if \<not> truthy (fixedPlaybook props)
          then Some \<lparr>selectorTestId = ''playbook-filter'', selectedId = playbook_id p,
                     showCustomReset = Boolean_str (playbook_id p),
                     controlledOpenToggle = playbookSelectorToggle st\<rparr>
          else None),
       teamFilter =
         (if length teams > 1 \<and> \<not> truthy (fixedTeam props)
          then Some \<lparr>selectorTestId = ''team-filter'', selectedId = team_id p,
                     showCustomReset = Boolean_str (team_id p),
                     controlledOpenToggle = teamSelectorToggle st\<rparr>
          else None)\<rparr>)"

subsection \<open>The debounced search callback (lines 31 and 154)\<close>

definition searchDebounceDelayMilliseconds :: nat where
  "searchDebounceDelayMilliseconds = 300"

text \<open>
  Modelled from the spec: the function \<open>debounce\<close> comes from a package that is not among
  the sources. The spec describes its result as "a debounced search callback that
  coalesces rapid input events into at most one outbound call per quiet period": a
  debounced function keeps at most one pending call; calling it at time \<open>t\<close> (in
  milliseconds) puts its argument in place of whatever is pending, due at \<open>t + wait\<close>;
  a pending call goes to the wrapped function once it is due.
  A pending call is a pair of its due time and its argument.
\<close>

definition debounced_call ::
  "nat \<Rightarrow> nat \<Rightarrow> string \<Rightarrow> (nat \<times> string) option \<Rightarrow> (nat \<times> string) option" where
  "debounced_call wait t arg pending = Some (t + wait, arg)"

definition due :: "nat \<Rightarrow> nat \<times> string \<Rightarrow> bool" where
  "due t c = (fst c \<le> t)"

text \<open>
  Line 154, \<open>onSearch={debounce(setSearchTerm, searchDebounceDelayMilliseconds)}\<close>, is part
  of the component's body, so every render evaluates it and makes a debounced function
  of its own. The search input calls the \<open>onSearch\<close> it got from the latest render; the
  debounced functions of earlier renders keep their pending calls. The state below
  holds the pending call of the latest render's function, the pending calls of earlier
  renders' functions (oldest first), and the calls of \<open>setSearchTerm\<close> made so far, each
  with its time and its term.
\<close>

record search_timers =
  latest :: "(nat \<times> string) option"
  earlier :: "(nat \<times> string) list"
  setSearchTermCalls :: "(nat \<times> string) list"

definition noTimers :: search_timers where
  "noTimers = \<lparr>latest = None, earlier = [], setSearchTermCalls = []\<rparr>"

text \<open>Time passes up to \<open>t\<close>: every pending call that is due goes to \<open>setSearchTerm\<close>.\<close>

definition elapse :: "nat \<Rightarrow> search_timers \<Rightarrow> search_timers" where
  "elapse t st =
     \<lparr>latest = (case latest st of
                  None \<Rightarrow> None
                | Some c \<Rightarrow> if due t c then None else Some c),
      earlier = filter (\<lambda>c. \<not> due t c) (earlier st),
      setSearchTermCalls =
        setSearchTermCalls st @ filter (due t) (earlier st) @
          (case latest st of None \<Rightarrow> [] | Some c \<Rightarrow> if due t c then [c] else [])\<rparr>"

text \<open>
  The two things that happen to the component, each with its time: a render, and a call
  of the \<open>onSearch\<close> prop by the search input.
\<close>

datatype filters_event = Render nat | OnSearch nat string

fun filters_step :: "filters_event \<Rightarrow> search_timers \<Rightarrow> search_timers" where
  "filters_step (Render t) st =
     (let st' = elapse t st
      in st'\<lparr>latest := None,
             earlier := earlier st' @ (case latest st' of None \<Rightarrow> [] | Some c \<Rightarrow> [c])\<rparr>)"
| "filters_step (OnSearch t term) st =
     (let st' = elapse t st
      in st'\<lparr>latest := debounced_call searchDebounceDelayMilliseconds t term (latest st')\<rparr>)"

fun filters_run :: "filters_event list \<Rightarrow> search_timers \<Rightarrow> search_timers" where
  "filters_run [] st = st"
| "filters_run (ev # evs) st = filters_run evs (filters_step ev st)"

text \<open>
  All calls of \<open>setSearchTerm\<close> that a sequence of events leads to, those still pending at
  its end included.
\<close>

definition searchCalls :: "filters_event list \<Rightarrow> (nat \<times> string) list" where
  "searchCalls evs =
     (let st = filters_run evs noTimers
      in setSearchTermCalls st @ earlier st @
           (case latest st of None \<Rightarrow> [] | Some c \<Rightarrow> [c]))"

text \<open>
  A burst: calls of \<open>onSearch\<close> with no render in between, each less than the delay after
  the one before (\<open>t\<close> is the time of the call before the first).
\<close>

fun burst :: "nat \<Rightarrow> filters_event list \<Rightarrow> bool" where
  "burst t [] = True"
| "burst t (OnSearch t' term # evs) =
     (t \<le> t' \<and> t' < t + searchDebounceDelayMilliseconds \<and> burst t' evs)"
| "burst t (Render t' # evs) = False"

text \<open>The time and term of the last call of a burst that starts with the call \<open>(t, term)\<close>.\<close>

fun lastCall :: "nat \<times> string \<Rightarrow> filters_event list \<Rightarrow> nat \<times> string" where
  "lastCall c [] = c"
| "lastCall c (OnSearch t' term # evs) = lastCall (t', term) evs"
| "lastCall c (Render t' # evs) = lastCall c evs"

section \<open>The playbook detail page (the \<open>Playbook\<close> component)\<close>

subsection \<open>Data\<close>

text \<open>\<open>FetchingStateType\<close> (lines 62 to 66): the three values \<open>fetchingState\<close> takes.\<close>

datatype FetchingStateType = loading | fetched | notFound

text \<open>
  \<open>PlaybookWithChecklist\<close> (src/types/playbook, not among the sources): the fields the
  title row reads. \<open>id\<close> is named \<open>playbook_ident\<close>; \<open>delete_at\<close> is a timestamp, 0 for
  a playbook that is not archived; of \<open>members\<close> only the length is shown.
\<close>

record PlaybookWithChecklist =
  playbook_ident :: string
  title :: string
  is_public :: bool
  members :: "string list"
  delete_at :: int

text \<open>The component's \<open>useState\<close> cells.\<close>

record PlaybookState =
  playbook :: "PlaybookWithChecklist option"
  fetchingState :: FetchingStateType
  isFollowed :: bool
  playbookLinkCopied :: bool


text \<open>A value thrown by a rejected client call.\<close>

datatype thrown = Thrown string

text \<open>Members of enumerations declared outside the sources, as far as the page names them.\<close>

datatype ErrorPageTypes = PLAYBOOKS

datatype PlaybookPermissionGeneral = RunCreate

text \<open>
  What the page takes from modules that are not among the sources, as parameters:
  the two client calls of the initial fetch (each either throws or returns), the
  permission hook, and the function that builds the error page's URL.
\<close>

record Env =
  clientFetchPlaybook :: "string \<Rightarrow> thrown + PlaybookWithChecklist option"
  clientFetchIsPlaybookFollower :: "string \<Rightarrow> string \<Rightarrow> thrown + bool"
  useHasPlaybookPermission ::
    "PlaybookPermissionGeneral \<Rightarrow> PlaybookWithChecklist option \<Rightarrow> bool"
  pluginErrorUrl :: "ErrorPageTypes \<Rightarrow> string"


subsection \<open>The initial fetch (lines 150 to 168)\<close>


subsection \<open>What the page renders (lines 170 to 329)\<close>

text \<open>The parts of the title row that depend on the state.\<close>

record PlaybookView =
  accessIconClass :: string
  titleText :: string
  archiveMenuItem :: bool
  membersCount :: nat
  archivedBadge :: bool
  autoFollowBox :: CheckboxInputProps
  runButtonDisabled :: bool
  runButtonTitle :: string

datatype rendered = RenderNull | Redirect string | Page PlaybookView

text \<open>
  The title row for a playbook \<open>pb\<close>:
  \<open>archived = playbook?.delete_at !== 0\<close>,
  \<open>enableRunPlaybook = !archived && hasPermissionToRunPlaybook\<close>.
  The menu item "Archive playbook" is present when \<open>archiveMenuItem\<close> is true.
\<close>

definition titleRow :: "Env \<Rightarrow> PlaybookState \<Rightarrow> PlaybookWithChecklist \<Rightarrow> PlaybookView" where
  "titleRow env s pb =
     (let hasPermissionToRunPlaybook = useHasPlaybookPermission env RunCreate (playbook s);
          archived = (delete_at pb \<noteq> 0);
          enableRunPlaybook = (\<not> archived \<and> hasPermissionToRunPlaybook)
      in \<lparr>accessIconClass = (if is_public pb then ''icon-globe'' else ''icon-lock-outline''),
          titleText = title pb,
          archiveMenuItem = (\<not> archived),
          membersCount = length (members pb),
          archivedBadge = archived,
          autoFollowBox =
            \<lparr>testId = ''auto-follow-runs'', checked = isFollowed s, disabled = Some archived\<rparr>,
          runButtonDisabled = (\<not> enableRunPlaybook),
          runButtonTitle =
            (if enableRunPlaybook then ''Run Playbook'' else ''You do not have permissions'')\<rparr>)"

definition Playbook :: "Env \<Rightarrow> PlaybookState \<Rightarrow> rendered" where
  "Playbook env s =
     (if fetchingState s = loading then RenderNull
      else if fetchingState s = notFound \<or> playbook s = None
        then Redirect (pluginErrorUrl env PLAYBOOKS)
      else Page (titleRow env s (the (playbook s))))"

subsection \<open>Handlers (lines 114 to 133)\<close>



subsection \<open>Sample values\<close>

text \<open>Concrete playbooks, environments and states, used to instantiate the theorems below.\<close>

definition livePlaybook :: PlaybookWithChecklist where
  "livePlaybook =
     \<lparr>playbook_ident = ''pb1'', title = ''Incident response'', is_public = True,
      members = [''u1'', ''u2''], delete_at = 0\<rparr>"

definition archivedPlaybook :: PlaybookWithChecklist where
  "archivedPlaybook =
     \<lparr>playbook_ident = ''pb2'', title = ''Old process'', is_public = False,
      members = [''u1''], delete_at = 1650000000000\<rparr>"

definition servingEnv :: Env where
  "servingEnv =
     \<lparr>clientFetchPlaybook =
        (\<lambda>i. if i = ''pb1'' then Inr (Some livePlaybook)
             else if i = ''pb2'' then Inr (Some archivedPlaybook)
             else Inr None),
      clientFetchIsPlaybookFollower = (\<lambda>i u. Inr True),
      useHasPlaybookPermission = (\<lambda>perm pb. True),
      pluginErrorUrl = (\<lambda>t. ''/playbooks/error?type=playbooks'')\<rparr>"


definition liveState :: PlaybookState where
  "liveState =
     \<lparr>playbook = Some livePlaybook, fetchingState = fetched, isFollowed = True,
      playbookLinkCopied = False\<rparr>"


section \<open>Properties of the filter bar\<close>

lemmas setter_defs =
  setFetchParams_def setMyRunsOnly_def setOwnerId_def setTeamId_def setPlaybookId_def
  setFinishedRuns_def setSearchTerm_def

lemmas toggle_defs =
  setProfileSelectorToggle_def setTeamSelectorToggle_def setPlaybookSelectorToggle_def

lemmas reset_defs = resetOwner_def resetTeam_def resetPlaybook_def

text \<open>
  C3. Whatever the fetch parameters are, the handler of the "Include finished" checkbox
  stores exactly \<open>[InProgress, Finished]\<close> in \<open>statuses\<close> when called with \<open>true\<close> and
  exactly \<open>[InProgress]\<close> when called with \<open>false\<close> (or with no argument). The checkbox,
  which is rendered unless \<open>fixedFinished\<close> is set, shows as checked exactly when the
  \<open>statuses\<close> list has more than one element; a missing list counts as empty.
\<close>

theorem include_finished_toggle:
  "statuses (fetchParams (setFinishedRuns (Some True) st)) = Some [InProgress, Finished]
   \<and> statuses (fetchParams (setFinishedRuns (Some False) st)) = Some [InProgress]
   \<and> statuses (fetchParams (setFinishedRuns None st)) = Some [InProgress]
   \<and> finishedRunsBox (Filters props teams st) =
       (if truthy (fixedFinished props) then None
        else Some \<lparr>testId = ''finished-runs'',
                   checked = (case statuses (fetchParams st) of
                                None \<Rightarrow> False | Some xs \<Rightarrow> length xs > 1),
                   disabled = None\<rparr>)"
  by (simp add: setter_defs truthy_def Filters_def includeFinished_def Let_def
      split: option.split)

text \<open>
  C4. Each of the six filter mutations (search term, my runs only, owner, team, playbook,
  include finished) leaves the \<open>page\<close> field of the fetch parameters at 0.
\<close>

theorem filter_setters_reset_page:
  "page (fetchParams (setSearchTerm t st)) = 0
   \<and> page (fetchParams (setMyRunsOnly c st)) = 0
   \<and> page (fetchParams (setOwnerId ut u st)) = 0
   \<and> page (fetchParams (setTeamId tid st)) = 0
   \<and> page (fetchParams (setPlaybookId pid st)) = 0
   \<and> page (fetchParams (setFinishedRuns c st)) = 0"
  by (simp add: setter_defs Let_def)

text \<open>
  C5. The handler of the "My runs only" checkbox stores the string \<open>me\<close> in
  \<open>participant_or_follower_id\<close> when called with \<open>true\<close> and the empty string when called
  with \<open>false\<close> (or with no argument); the checkbox shows as checked exactly when that
  field equals \<open>me\<close>.
\<close>

theorem my_runs_only_toggle:
  "participant_or_follower_id (fetchParams (setMyRunsOnly (Some True) st)) = Some ''me''
   \<and> participant_or_follower_id (fetchParams (setMyRunsOnly (Some False) st)) = Some ''''
   \<and> participant_or_follower_id (fetchParams (setMyRunsOnly None st)) = Some ''''
   \<and> checked (myRunsOnlyBox (Filters props teams st)) =
       (participant_or_follower_id (fetchParams st) = Some ''me'')"
  by (simp add: setter_defs truthy_def Filters_def myRunsOnly_def Let_def)

text \<open>
  C6. For the owner, team and playbook selectors alike, the reset control sets the
  selector's id field of the fetch parameters to undefined, sets \<open>page\<close> to 0, and
  inverts the selector's controlled-open toggle.
\<close>

theorem selector_reset:
  "owner_user_id (fetchParams (resetOwner st)) = None
   \<and> page (fetchParams (resetOwner st)) = 0
   \<and> profileSelectorToggle (resetOwner st) = (\<not> profileSelectorToggle st)
   \<and> team_id (fetchParams (resetTeam st)) = None
   \<and> page (fetchParams (resetTeam st)) = 0
   \<and> teamSelectorToggle (resetTeam st) = (\<not> teamSelectorToggle st)
   \<and> playbook_id (fetchParams (resetPlaybook st)) = None
   \<and> page (fetchParams (resetPlaybook st)) = 0
   \<and> playbookSelectorToggle (resetPlaybook st) = (\<not> playbookSelectorToggle st)"
  by (simp add: reset_defs toggle_defs setter_defs)

text \<open>
  C7. Each filter setter replaces the fetch parameters by an object that differs from the
  old one only in the setter's own field and in \<open>page\<close>: the owner id, team id, playbook
  id, search term, status list and mine-only field (\<open>participant_or_follower_id\<close>), as far
  as they are not the setter's target, and all remaining fields of the bag (the record's
  extension part) keep their values.
\<close>

theorem filter_setters_frame:
  "(let p = fetchParams st; q = fetchParams (setMyRunsOnly c st) in
      owner_user_id q = owner_user_id p \<and> team_id q = team_id p
      \<and> playbook_id q = playbook_id p \<and> search_term q = search_term p
      \<and> statuses q = statuses p
      \<and> FetchPlaybookRunsParams.more q = FetchPlaybookRunsParams.more p)
   \<and> (let p = fetchParams st; q = fetchParams (setOwnerId ut u st) in
      participant_or_follower_id q = participant_or_follower_id p \<and> team_id q = team_id p
      \<and> playbook_id q = playbook_id p \<and> search_term q = search_term p
      \<and> statuses q = statuses p
      \<and> FetchPlaybookRunsParams.more q = FetchPlaybookRunsParams.more p)
   \<and> (let p = fetchParams st; q = fetchParams (setTeamId tid st) in
      participant_or_follower_id q = participant_or_follower_id p
      \<and> owner_user_id q = owner_user_id p
      \<and> playbook_id q = playbook_id p \<and> search_term q = search_term p
      \<and> statuses q = statuses p
      \<and> FetchPlaybookRunsParams.more q = FetchPlaybookRunsParams.more p)
   \<and> (let p = fetchParams st; q = fetchParams (setPlaybookId pid st) in
      participant_or_follower_id q = participant_or_follower_id p
      \<and> owner_user_id q = owner_user_id p
      \<and> team_id q = team_id p \<and> search_term q = search_term p
      \<and> statuses q = statuses p
      \<and> FetchPlaybookRunsParams.more q = FetchPlaybookRunsParams.more p)
   \<and> (let p = fetchParams st; q = fetchParams (setFinishedRuns c st) in
      participant_or_follower_id q = participant_or_follower_id p
      \<and> owner_user_id q = owner_user_id p
      \<and> team_id q = team_id p \<and> playbook_id q = playbook_id p
      \<and> search_term q = search_term p
      \<and> FetchPlaybookRunsParams.more q = FetchPlaybookRunsParams.more p)
   \<and> (let p = fetchParams st; q = fetchParams (setSearchTerm t st) in
      participant_or_follower_id q = participant_or_follower_id p
      \<and> owner_user_id q = owner_user_id p
      \<and> team_id q = team_id p \<and> playbook_id q = playbook_id p
      \<and> statuses q = statuses p
      \<and> FetchPlaybookRunsParams.more q = FetchPlaybookRunsParams.more p)"
  by (simp add: setter_defs Let_def)

text \<open>
  Within one render the debounced function does coalesce: a burst of calls leads to one
  call of \<open>setSearchTerm\<close>, with the last term, one delay after the last call.
\<close>

lemma burst_run:
  assumes "burst t evs" and "earlier st = []"
    and "latest st = Some (t + searchDebounceDelayMilliseconds, a)"
  shows "filters_run evs st =
           st\<lparr>latest := Some (fst (lastCall (t, a) evs) + searchDebounceDelayMilliseconds,
                               snd (lastCall (t, a) evs))\<rparr>"
  using assms
proof (induction evs arbitrary: st t a)
  case Nil
  then show ?case by simp
next
  case (Cons ev evs)
  then obtain t' x where ev: "ev = OnSearch t' x"
    by (cases ev) simp_all
  from Cons.prems ev have b: "t \<le> t'" "t' < t + searchDebounceDelayMilliseconds" "burst t' evs"
    by simp_all
  have el: "elapse t' st = st"
    using Cons.prems(2,3) b(2) by (simp add: elapse_def due_def)
  let ?st = "st\<lparr>latest := Some (t' + searchDebounceDelayMilliseconds, x)\<rparr>"
  have "filters_run evs ?st =
          ?st\<lparr>latest := Some (fst (lastCall (t', x) evs) + searchDebounceDelayMilliseconds,
                                snd (lastCall (t', x) evs))\<rparr>"
    using Cons.IH [OF b(3), of ?st x] Cons.prems(2) by simp
  then show ?case
    by (simp add: ev el debounced_call_def Let_def)
qed

lemma single_render_burst_coalesced:
  assumes "burst t evs"
  shows "searchCalls (OnSearch t a # evs) =
           [(fst (lastCall (t, a) evs) + searchDebounceDelayMilliseconds,
             snd (lastCall (t, a) evs))]"
proof -
  let ?st = "noTimers\<lparr>latest := Some (t + searchDebounceDelayMilliseconds, a)\<rparr>"
  have "filters_step (OnSearch t a) noTimers = ?st"
    by (simp add: elapse_def noTimers_def debounced_call_def Let_def)
  moreover have "filters_run evs ?st =
      ?st\<lparr>latest := Some (fst (lastCall (t, a) evs) + searchDebounceDelayMilliseconds,
                           snd (lastCall (t, a) evs))\<rparr>"
    using burst_run [OF assms, of ?st a] by (simp add: noTimers_def)
  ultimately show ?thesis
    by (simp add: searchCalls_def noTimers_def Let_def del: filters_step.simps)
qed

lemma two_calls_one_render:
  "searchCalls [OnSearch 0 ''a'', OnSearch 200 ''ab''] = [(500, ''ab'')]"
  by (simp add: searchCalls_def noTimers_def elapse_def due_def debounced_call_def
      searchDebounceDelayMilliseconds_def Let_def)

text \<open>
  C8. The search callback is debounced with a delay of 300 milliseconds, and rapid calls
  should end in at most one call of the search-term setter per quiet period. The
  debounced function is made anew by every render, though: when the component renders
  between two calls that are 200 milliseconds apart, each call stays pending in a
  debounced function of its own and the setter runs twice, at 300 and at 500
  milliseconds.
\<close>

theorem search_debounce_lost_on_render:
  "searchDebounceDelayMilliseconds = 300
   \<and> searchCalls [OnSearch 0 ''a'', Render 100, OnSearch 200 ''ab'']
       = [(300, ''a''), (500, ''ab'')]"
  by (simp add: searchCalls_def noTimers_def elapse_def due_def debounced_call_def
      searchDebounceDelayMilliseconds_def Let_def)

section \<open>Properties of the playbook detail page\<close>

lemma Playbook_PageD:
  "Playbook env s = Page v \<Longrightarrow>
     \<exists>pb. playbook s = Some pb \<and> fetchingState s = fetched \<and> v = titleRow env s pb"
  by (cases "fetchingState s") (auto simp: Playbook_def split: if_splits)

lemma titleRow_fields:
  "archiveMenuItem (titleRow env s pb) = (delete_at pb = 0)"
  "archivedBadge (titleRow env s pb) = (delete_at pb \<noteq> 0)"
  "disabled (autoFollowBox (titleRow env s pb)) = Some (delete_at pb \<noteq> 0)"
  "checked (autoFollowBox (titleRow env s pb)) = isFollowed s"
  "runButtonDisabled (titleRow env s pb) =
     (\<not> (delete_at pb = 0 \<and> useHasPlaybookPermission env RunCreate (playbook s)))"
  by (simp_all add: titleRow_def Let_def)




text \<open>
  C2. Whenever the page is rendered for a fetched playbook, the run button is enabled
  if and only if the playbook's delete timestamp is 0 and the permission hook grants the
  current user run-create on that playbook.
\<close>

theorem run_button_enabled:
  assumes "Playbook env s = Page v" and "playbook s = Some pb"
  shows "(\<not> runButtonDisabled v)
           = (delete_at pb = 0 \<and> useHasPlaybookPermission env RunCreate (Some pb))"
proof -
  from assms have "v = titleRow env s pb"
    using Playbook_PageD by fastforce
  with assms(2) show ?thesis
    by (simp add: titleRow_fields)
qed

theorem run_button_enabled_witness:
  "Playbook servingEnv liveState = Page (titleRow servingEnv liveState livePlaybook)
   \<and> playbook liveState = Some livePlaybook
   \<and> \<not> runButtonDisabled (titleRow servingEnv liveState livePlaybook)
   \<and> delete_at livePlaybook = 0
   \<and> useHasPlaybookPermission servingEnv RunCreate (Some livePlaybook)"
  using run_button_enabled
    [of servingEnv liveState "titleRow servingEnv liveState livePlaybook" livePlaybook]
  by (simp add: Playbook_def liveState_def livePlaybook_def servingEnv_def)







end
